theory Spec2Isabelle
  imports Main
begin

section \<open>Shared types (packages/types)\<close>

datatype UserRole = ADMIN | MANAGER | USER

datatype TaskStatus = PENDING | IN_PROGRESS | COMPLETED | CANCELLED

datatype TaskPriority = LOW | MEDIUM | HIGH | URGENT

text \<open>
  Ids are JavaScript numbers holding integers; dates are represented by their timestamp.
  The \<open>createdAt\<close>/\<open>updatedAt\<close> columns are filled in by the database defaults and are
  read by none of the services, so the rows below leave them out.
\<close>

record User =
  id :: int
  email :: string
  firstName :: string
  lastName :: "string option"
  isActive :: bool
  role :: UserRole
  password :: string

text \<open>A row of the \<open>tasks\<close> table. No variant's table has a due-date column.\<close>

record Task =
  id :: int
  title :: string
  description :: "string option"
  status :: TaskStatus
  priority :: TaskPriority
  assignedToId :: int
  createdBy :: int
  completedAt :: "int option"

text \<open>
  \<open>Partial<Task>\<close>: every field may be absent (\<open>undefined\<close>). The \<open>dueDate\<close> field is the
  one the due-date operation passes through an \<open>as any\<close> cast.
\<close>

record TaskData =
  title :: "string option"
  description :: "string option"
  status :: "TaskStatus option"
  priority :: "TaskPriority option"
  assignedToId :: "int option"
  createdBy :: "int option"
  completedAt :: "int option"
  dueDate :: "int option"

definition noTaskData :: TaskData where
  "noTaskData = \<lparr>TaskData.title = None, TaskData.description = None, TaskData.status = None,
     TaskData.priority = None, TaskData.assignedToId = None, TaskData.createdBy = None,
     TaskData.completedAt = None, TaskData.dueDate = None\<rparr>"

text \<open>
  A task object as a repository hands it to the service at run time where the static type
  \<open>Task\<close> does not hold: a property the repository did not fill in reads \<open>undefined\<close>.
\<close>

record TaskObject =
  id :: int
  title :: "string option"
  description :: "string option"
  status :: "TaskStatus option"
  priority :: "TaskPriority option"
  assignedToId :: "int option"
  createdBy :: "int option"
  completedAt :: "int option"

section \<open>Exceptions (packages/common errors)\<close>

text \<open>
  \<open>UnauthorizedException\<close> (HTTP 401) is the class the services throw both for a rejected
  token and for a denied operation; \<open>NotFoundException\<close> (404) is thrown for a missing task
  or user. \<open>Error\<close> is a plain JavaScript error with its message. \<open>DatabaseError\<close> stands
  for any error raised below the repositories while a query is built or run (by the
  mapper's validation, the query builder, the driver or the database engine); it is none
  of the application's exception classes.
\<close>

datatype exception =
    UnauthorizedException string
  | NotFoundException string
  | BadRequestException string
  | Error string
  | DatabaseError

type_synonym 'a result = "exception + 'a"

fun succeeds :: "'a result \<Rightarrow> bool" where
  "succeeds (Inr v) = True"
| "succeeds (Inl e) = False"

subsection \<open>Template literals\<close>

text \<open>\<open>`${n}`\<close> for an integer-valued number: its decimal digits, with a minus sign.\<close>

definition digit :: "nat \<Rightarrow> char" where
  "digit d = ''0123456789'' ! d"

fun digits_of :: "nat \<Rightarrow> string" where
  "digits_of n = (if 10 \<le> n then digits_of (n div 10) @ [digit (n mod 10)] else [digit n])"

definition number_toString :: "int \<Rightarrow> string" where
  "number_toString i = (if 0 \<le> i then digits_of (nat i) else CHR ''-'' # digits_of (nat (- i)))"

section \<open>TokenService (packages/common token)\<close>

text \<open>
  The \<open>jsonwebtoken\<close> library is modelled symbolically: a signed token records its claims,
  its issue and expiry times (seconds) and the secret it was signed with; any other string
  is malformed. \<open>jwt.verify\<close> accepts a token signed with the given secret whose expiry
  lies in the future, and returns the claims together with \<open>iat\<close> and \<open>exp\<close>.
\<close>

record TokenPayload =
  userId :: int
  email :: string
  role :: UserRole

record DecodedToken = TokenPayload +
  iat :: int
  exp :: int

datatype token = Signed TokenPayload int int string | Malformed string

record config =
  jwt_secret :: string

definition seconds_24h :: int where
  "seconds_24h = 24 * 60 * 60"

definition seconds_7d :: int where
  "seconds_7d = 7 * 24 * 60 * 60"

definition jwt_sign :: "TokenPayload \<Rightarrow> string \<Rightarrow> int \<Rightarrow> int \<Rightarrow> token" where
  "jwt_sign payload secret expiresIn now = Signed payload now (now + expiresIn) secret"

definition jwt_verify :: "token \<Rightarrow> string \<Rightarrow> int \<Rightarrow> DecodedToken result" where
  "jwt_verify tok secret now =
     (case tok of
        Malformed s \<Rightarrow> Inl (Error ''jwt malformed'')
      | Signed payload issued expires k \<Rightarrow>
          if k \<noteq> secret then Inl (Error ''invalid signature'')
          else if now \<ge> expires then Inl (Error ''jwt expired'')
          else Inr \<lparr>userId = TokenPayload.userId payload, email = TokenPayload.email payload,
                    role = TokenPayload.role payload, iat = issued, exp = expires\<rparr>)"

definition generateToken :: "config \<Rightarrow> int \<Rightarrow> User \<Rightarrow> token" where
  "generateToken cfg now user =
     jwt_sign \<lparr>userId = User.id user, email = User.email user, role = User.role user\<rparr>
       (jwt_secret cfg) seconds_24h now"

definition generateRefreshToken :: "config \<Rightarrow> int \<Rightarrow> User \<Rightarrow> token" where
  "generateRefreshToken cfg now user =
     jwt_sign \<lparr>userId = User.id user, email = User.email user, role = User.role user\<rparr>
       (jwt_secret cfg) seconds_7d now"

definition verifyToken :: "config \<Rightarrow> int \<Rightarrow> token \<Rightarrow> DecodedToken result" where
  "verifyToken cfg now tok =
     (case jwt_verify tok (jwt_secret cfg) now of
        Inr decoded \<Rightarrow> Inr decoded
      | Inl error \<Rightarrow> Inl (UnauthorizedException ''Invalid or expired token''))"

section \<open>The database seen by the repositories\<close>

text \<open>
  Two tables keyed by primary key, and the next value of the \<open>tasks.id\<close> sequence. The
  \<open>id\<close> columns and the two user references of a task are 32-bit integers (\<open>serial\<close>,
  \<open>integer\<close>). A table holds no row outside that range, so a row that is present is found;
  a query for an id that has no row returns nothing when the id is in range and is
  refused by the database when it is not.
\<close>

record db =
  tasks :: "int \<rightharpoonup> Task"
  users :: "int \<rightharpoonup> User"
  nextTaskId :: int

definition int4 :: "int \<Rightarrow> bool" where
  "int4 i \<longleftrightarrow> - 2147483648 \<le> i \<and> i \<le> 2147483647"

definition select_task :: "int \<Rightarrow> db \<Rightarrow> Task option result" where
  "select_task i d =
     (case tasks d i of
        Some row \<Rightarrow> Inr (Some row)
      | None \<Rightarrow> if int4 i then Inr None else Inl DatabaseError)"

definition select_user :: "int \<Rightarrow> db \<Rightarrow> User option result" where
  "select_user i d =
     (case users d i of
        Some row \<Rightarrow> Inr (Some row)
      | None \<Rightarrow> if int4 i then Inr None else Inl DatabaseError)"

text \<open>
  The foreign keys of \<open>tasks.assigned_to_id\<close> and \<open>tasks.created_by\<close> to \<open>users.id\<close>,
  present in every variant's migration.
\<close>

definition references_user :: "db \<Rightarrow> int \<Rightarrow> bool" where
  "references_user d i \<longleftrightarrow> users d i \<noteq> None"

text \<open>JavaScript's \<open>a || b\<close> on an optional number: \<open>undefined\<close> and \<open>0\<close> are falsy.\<close>

definition or_number :: "int option \<Rightarrow> int \<Rightarrow> int" where
  "or_number a b = (case a of None \<Rightarrow> b | Some v \<Rightarrow> if v = 0 then b else v)"

text \<open>\<open>a || b\<close> and \<open>a ?? b\<close> on an optional string: the empty string is falsy, not nullish.\<close>

definition or_string :: "string option \<Rightarrow> string \<Rightarrow> string" where
  "or_string a b = (case a of None \<Rightarrow> b | Some v \<Rightarrow> if v = [] then b else v)"

definition nullish_string :: "string option \<Rightarrow> string \<Rightarrow> string" where
  "nullish_string a b = (case a of None \<Rightarrow> b | Some v \<Rightarrow> v)"

text \<open>\<open>a || b\<close> on an optional enum member (a non-empty string, hence truthy).\<close>

definition or_enum :: "'a option \<Rightarrow> 'a \<Rightarrow> 'a" where
  "or_enum a b = (case a of None \<Rightarrow> b | Some v \<Rightarrow> v)"

text \<open>\<open>s || undefined\<close> on an optional string, as the Objection repositories map their rows.\<close>

definition or_undefined :: "string option \<Rightarrow> string option" where
  "or_undefined a = (case a of None \<Rightarrow> None | Some v \<Rightarrow> if v = [] then None else Some v)"

text \<open>Writing a patch into a row: an absent (\<open>undefined\<close>) field leaves the column alone.\<close>

definition patch :: "'a option \<Rightarrow> 'a \<Rightarrow> 'a" where
  "patch new old = (case new of None \<Rightarrow> old | Some v \<Rightarrow> v)"

definition patch_opt :: "'a option \<Rightarrow> 'a option \<Rightarrow> 'a option" where
  "patch_opt new old = (case new of None \<Rightarrow> old | Some v \<Rightarrow> Some v)"

text \<open>A patch value, where there is one, satisfies a column constraint.\<close>

definition where_defined :: "('a \<Rightarrow> bool) \<Rightarrow> 'a option \<Rightarrow> bool" where
  "where_defined ok v = (case v of None \<Rightarrow> True | Some x \<Rightarrow> ok x)"

definition insert_task :: "Task \<Rightarrow> db \<Rightarrow> db" where
  "insert_task row d = d\<lparr>tasks := (tasks d)(Task.id row \<mapsto> row), nextTaskId := nextTaskId d + 1\<rparr>"

definition store_task :: "Task \<Rightarrow> db \<Rightarrow> db" where
  "store_task row d = d\<lparr>tasks := (tasks d)(Task.id row \<mapsto> row)\<rparr>"

definition remove_task :: "int \<Rightarrow> db \<Rightarrow> db" where
  "remove_task i d = d\<lparr>tasks := (tasks d)(i := None)\<rparr>"

definition delete_task :: "int \<Rightarrow> db \<Rightarrow> unit result \<times> db" where
  "delete_task i d =
     (case tasks d i of
        Some row \<Rightarrow> (Inr (), remove_task i d)
      | None \<Rightarrow> if int4 i then (Inr (), d) else (Inl DatabaseError, d))"

text \<open>None of the patch's fields that name a column of \<open>tasks\<close> is defined.\<close>

definition no_column_defined :: "TaskData \<Rightarrow> bool" where
  "no_column_defined taskData \<longleftrightarrow>
     TaskData.title taskData = None \<and> TaskData.description taskData = None \<and>
     TaskData.status taskData = None \<and> TaskData.priority taskData = None \<and>
     TaskData.assignedToId taskData = None \<and> TaskData.createdBy taskData = None \<and>
     TaskData.completedAt taskData = None"

section \<open>Drizzle variant\<close>

text \<open>
  In the services the parameter \<open>userId\<close> of the source is written \<open>uid\<close> (the name
  \<open>userId\<close> is the token claim), and the new status, priority and due date are written
  \<open>newStatus\<close>, \<open>newPriority\<close> and \<open>newDueDate\<close>.
\<close>

subsection \<open>Repositories (apps/drizzle/src/repositories)\<close>

definition drizzle_user_findById :: "int \<Rightarrow> db \<Rightarrow> User option result" where
  "drizzle_user_findById i d = select_user i d"

text \<open>
  The insert is accepted when the NOT NULL columns have a value, the title fits
  \<open>varchar(255)\<close>, both user references point at a row of \<open>users\<close> and the id sequence has
  a value left.
\<close>

definition drizzle_task_create :: "TaskData \<Rightarrow> db \<Rightarrow> Task result \<times> db" where
  "drizzle_task_create taskData d =
     (case (TaskData.title taskData, TaskData.assignedToId taskData, TaskData.createdBy taskData) of
        (Some t, Some a, Some c) \<Rightarrow>
          if length t \<le> 255 \<and> references_user d a \<and> references_user d c \<and> int4 (nextTaskId d)
          then (let newTask = \<lparr>Task.id = nextTaskId d, title = t,
                      description = Some (nullish_string (TaskData.description taskData) []),
                      status = or_enum (TaskData.status taskData) PENDING,
                      priority = or_enum (TaskData.priority taskData) MEDIUM,
                      assignedToId = a, createdBy = c,
                      completedAt = TaskData.completedAt taskData\<rparr>
                in (Inr newTask, insert_task newTask d))
          else (Inl DatabaseError, d)
      | _ \<Rightarrow> (Inl DatabaseError, d))"

definition drizzle_task_findById :: "int \<Rightarrow> db \<Rightarrow> Task option result" where
  "drizzle_task_findById i d = select_task i d"

text \<open>
  \<open>.set(taskData)\<close> throws ``No values to set'' when every value of the patch is
  \<open>undefined\<close>. The statement sets the table's columns that the patch defines; \<open>dueDate\<close> is
  no column, so a patch that defines nothing else yields a statement the database
  refuses. A patch that matches no row returns no row.
\<close>

definition drizzle_task_update :: "int \<Rightarrow> TaskData \<Rightarrow> db \<Rightarrow> Task result \<times> db" where
  "drizzle_task_update i taskData d =
     (if no_column_defined taskData \<and> TaskData.dueDate taskData = None
      then (Inl (Error ''No values to set''), d)
      else if no_column_defined taskData then (Inl DatabaseError, d)
      else (case select_task i d of
              Inl error \<Rightarrow> (Inl error, d)
            | Inr None \<Rightarrow> (Inl (Error ''Task not found''), d)
            | Inr (Some row) \<Rightarrow>
                if where_defined (\<lambda>t. length t \<le> 255) (TaskData.title taskData)
                   \<and> where_defined (references_user d) (TaskData.assignedToId taskData)
                   \<and> where_defined (references_user d) (TaskData.createdBy taskData)
                then (let updatedTask = \<lparr>Task.id = Task.id row,
                            title = patch (TaskData.title taskData) (Task.title row),
                            description = patch_opt (TaskData.description taskData) (Task.description row),
                            status = patch (TaskData.status taskData) (Task.status row),
                            priority = patch (TaskData.priority taskData) (Task.priority row),
                            assignedToId = patch (TaskData.assignedToId taskData) (Task.assignedToId row),
                            createdBy = patch (TaskData.createdBy taskData) (Task.createdBy row),
                            completedAt = patch_opt (TaskData.completedAt taskData) (Task.completedAt row)\<rparr>
                      in (Inr updatedTask, store_task updatedTask d))
                else (Inl DatabaseError, d)))"

definition drizzle_task_delete :: "int \<Rightarrow> db \<Rightarrow> unit result \<times> db" where
  "drizzle_task_delete i d = delete_task i d"

subsection \<open>TaskService (apps/drizzle/src/services/taskService.ts)\<close>

definition drizzle_createTask :: "TaskData \<Rightarrow> int \<Rightarrow> UserRole \<Rightarrow> db \<Rightarrow> Task result \<times> db" where
  "drizzle_createTask taskData uid userRole d =
     (if userRole \<noteq> ADMIN \<and> userRole \<noteq> MANAGER
      then (Inl (UnauthorizedException ''Only ADMIN and MANAGER can create tasks''), d)
      else drizzle_task_create
             (taskData\<lparr>TaskData.createdBy := Some uid,
                TaskData.assignedToId := Some (or_number (TaskData.assignedToId taskData) uid)\<rparr>) d)"

definition drizzle_getTaskById :: "int \<Rightarrow> int \<Rightarrow> UserRole \<Rightarrow> db \<Rightarrow> Task result \<times> db" where
  "drizzle_getTaskById taskId uid userRole d =
     (case drizzle_task_findById taskId d of
        Inl error \<Rightarrow> (Inl error, d)
      | Inr None \<Rightarrow> (Inl (NotFoundException (''Task with id '' @ number_toString taskId @ '' not found'')), d)
      | Inr (Some task) \<Rightarrow>
          if userRole = ADMIN then (Inr task, d)
          else if userRole = MANAGER \<and> (Task.createdBy task = uid \<or> Task.assignedToId task = uid)
          then (Inr task, d)
          else if userRole = USER \<and> Task.assignedToId task = uid then (Inr task, d)
          else (Inl (UnauthorizedException ''You do not have permission to access this task''), d))"

definition drizzle_updateTask :: "int \<Rightarrow> TaskData \<Rightarrow> int \<Rightarrow> UserRole \<Rightarrow> db \<Rightarrow> Task result \<times> db" where
  "drizzle_updateTask taskId taskData uid userRole d =
     (case drizzle_task_findById taskId d of
        Inl error \<Rightarrow> (Inl error, d)
      | Inr None \<Rightarrow> (Inl (NotFoundException (''Task with id '' @ number_toString taskId @ '' not found'')), d)
      | Inr (Some task) \<Rightarrow>
          if userRole = ADMIN then drizzle_task_update taskId taskData d
          else if userRole = MANAGER \<and> Task.createdBy task = uid
          then drizzle_task_update taskId taskData d
          else if userRole = USER \<and> Task.assignedToId task = uid
          then (let allowedUpdates = noTaskData\<lparr>TaskData.status := TaskData.status taskData,
                      TaskData.completedAt := TaskData.completedAt taskData\<rparr>
                in drizzle_task_update taskId allowedUpdates d)
          else (Inl (UnauthorizedException ''You do not have permission to update this task''), d))"

definition drizzle_deleteTask :: "int \<Rightarrow> int \<Rightarrow> UserRole \<Rightarrow> db \<Rightarrow> bool result \<times> db" where
  "drizzle_deleteTask taskId uid userRole d =
     (case drizzle_task_findById taskId d of
        Inl error \<Rightarrow> (Inl error, d)
      | Inr None \<Rightarrow> (Inl (NotFoundException (''Task with id '' @ number_toString taskId @ '' not found'')), d)
      | Inr (Some task) \<Rightarrow>
          if userRole \<noteq> ADMIN then (Inl (UnauthorizedException ''Only ADMIN can delete tasks''), d)
          else (case drizzle_task_delete taskId d of
                  (Inl error, d') \<Rightarrow> (Inl error, d')
                | (Inr done, d') \<Rightarrow> (Inr True, d')))"

definition drizzle_assignTask :: "int \<Rightarrow> int \<Rightarrow> int \<Rightarrow> UserRole \<Rightarrow> db \<Rightarrow> Task result \<times> db" where
  "drizzle_assignTask taskId assigneeId uid userRole d =
     (case drizzle_task_findById taskId d of
        Inl error \<Rightarrow> (Inl error, d)
      | Inr None \<Rightarrow> (Inl (NotFoundException (''Task with id '' @ number_toString taskId @ '' not found'')), d)
      | Inr (Some task) \<Rightarrow>
          if userRole \<noteq> ADMIN \<and> userRole \<noteq> MANAGER
          then (Inl (UnauthorizedException ''Only ADMIN and MANAGER can assign tasks''), d)
          else (case drizzle_user_findById assigneeId d of
                  Inl error \<Rightarrow> (Inl error, d)
                | Inr None \<Rightarrow> (Inl (NotFoundException
                              (''User with id '' @ number_toString assigneeId @ '' not found'')), d)
                | Inr (Some assignee) \<Rightarrow>
                    drizzle_task_update taskId (noTaskData\<lparr>TaskData.assignedToId := Some assigneeId\<rparr>) d))"

definition drizzle_updateTaskStatus :: "int \<Rightarrow> TaskStatus \<Rightarrow> int \<Rightarrow> UserRole \<Rightarrow> db \<Rightarrow> Task result \<times> db" where
  "drizzle_updateTaskStatus taskId newStatus uid userRole d =
     (case drizzle_task_findById taskId d of
        Inl error \<Rightarrow> (Inl error, d)
      | Inr None \<Rightarrow> (Inl (NotFoundException (''Task with id '' @ number_toString taskId @ '' not found'')), d)
      | Inr (Some task) \<Rightarrow>
          if userRole = USER \<and> Task.assignedToId task \<noteq> uid
          then (Inl (UnauthorizedException ''You can only update status of your own tasks''), d)
          else if userRole = MANAGER \<and> Task.createdBy task \<noteq> uid \<and> Task.assignedToId task \<noteq> uid
          then (Inl (UnauthorizedException ''You do not have permission to update this task''), d)
          else drizzle_task_update taskId (noTaskData\<lparr>TaskData.status := Some newStatus\<rparr>) d)"

definition drizzle_updateTaskDueDate :: "int \<Rightarrow> int \<Rightarrow> int \<Rightarrow> UserRole \<Rightarrow> db \<Rightarrow> Task result \<times> db" where
  "drizzle_updateTaskDueDate taskId newDueDate uid userRole d =
     (if userRole \<noteq> ADMIN \<and> userRole \<noteq> MANAGER
      then (Inl (UnauthorizedException ''Only ADMIN and MANAGER can update task due date''), d)
      else (case drizzle_task_findById taskId d of
              Inl error \<Rightarrow> (Inl error, d)
            | Inr None \<Rightarrow> (Inl (NotFoundException (''Task with id '' @ number_toString taskId @ '' not found'')), d)
            | Inr (Some task) \<Rightarrow>
                drizzle_task_update taskId (noTaskData\<lparr>TaskData.dueDate := Some newDueDate\<rparr>) d))"

definition drizzle_updateTaskPriority :: "int \<Rightarrow> TaskPriority \<Rightarrow> int \<Rightarrow> UserRole \<Rightarrow> db \<Rightarrow> Task result \<times> db" where
  "drizzle_updateTaskPriority taskId newPriority uid userRole d =
     (if userRole \<noteq> ADMIN \<and> userRole \<noteq> MANAGER
      then (Inl (UnauthorizedException ''Only ADMIN and MANAGER can update task priority''), d)
      else (case drizzle_task_findById taskId d of
              Inl error \<Rightarrow> (Inl error, d)
            | Inr None \<Rightarrow> (Inl (NotFoundException (''Task with id '' @ number_toString taskId @ '' not found'')), d)
            | Inr (Some task) \<Rightarrow>
                drizzle_task_update taskId (noTaskData\<lparr>TaskData.priority := Some newPriority\<rparr>) d))"

section \<open>TypeORM variant\<close>

subsection \<open>Repositories (src/unnamed/part_001 and part_002)\<close>

definition typeorm_mapToUser :: "User \<Rightarrow> User" where
  "typeorm_mapToUser typeOrmUser = typeOrmUser\<lparr>lastName := Some (or_string (lastName typeOrmUser) [])\<rparr>"

text \<open>The lookup is \<open>findOne({ where: { id, isActive: true } })\<close>.\<close>

definition typeorm_user_findById :: "int \<Rightarrow> db \<Rightarrow> User option result" where
  "typeorm_user_findById i d =
     (case select_user i d of
        Inl error \<Rightarrow> Inl error
      | Inr None \<Rightarrow> Inr None
      | Inr (Some user) \<Rightarrow> if isActive user then Inr (Some (typeorm_mapToUser user)) else Inr None)"

text \<open>The migration's \<open>title\<close> is a \<open>varchar\<close> without a length.\<close>

definition typeorm_task_create :: "TaskData \<Rightarrow> db \<Rightarrow> Task result \<times> db" where
  "typeorm_task_create taskData d =
     (case (TaskData.title taskData, TaskData.assignedToId taskData, TaskData.createdBy taskData) of
        (Some t, Some a, Some c) \<Rightarrow>
          if references_user d a \<and> references_user d c \<and> int4 (nextTaskId d)
          then (let task = \<lparr>Task.id = nextTaskId d, title = t,
                      description = Some (or_string (TaskData.description taskData) []),
                      status = or_enum (TaskData.status taskData) PENDING,
                      priority = or_enum (TaskData.priority taskData) MEDIUM,
                      assignedToId = a, createdBy = c,
                      completedAt = None\<rparr>
                in (Inr task, insert_task task d))
          else (Inl DatabaseError, d)
      | _ \<Rightarrow> (Inl DatabaseError, d))"

definition typeorm_task_findById :: "int \<Rightarrow> db \<Rightarrow> Task option result" where
  "typeorm_task_findById i d = select_task i d"

text \<open>
  \<open>Object.assign\<close> copies six properties of the patch onto the loaded entity, the
  \<open>undefined\<close> ones included; \<open>createdBy\<close> and \<open>dueDate\<close> are not among them. \<open>save\<close>
  writes the properties that are defined and leaves the other columns alone. The entity
  that comes back, and that \<open>mapToTask\<close> copies, is the loaded one after \<open>Object.assign\<close>:
  the six properties read what the patch held.
\<close>

definition typeorm_task_update :: "int \<Rightarrow> TaskData \<Rightarrow> db \<Rightarrow> TaskObject result \<times> db" where
  "typeorm_task_update i taskData d =
     (case select_task i d of
        Inl error \<Rightarrow> (Inl error, d)
      | Inr None \<Rightarrow> (Inl (Error ''Task not found''), d)
      | Inr (Some task) \<Rightarrow>
          if where_defined (references_user d) (TaskData.assignedToId taskData)
          then (let savedRow = task\<lparr>
                      Task.title := patch (TaskData.title taskData) (Task.title task),
                      Task.description := patch_opt (TaskData.description taskData) (Task.description task),
                      Task.status := patch (TaskData.status taskData) (Task.status task),
                      Task.priority := patch (TaskData.priority taskData) (Task.priority task),
                      Task.assignedToId := patch (TaskData.assignedToId taskData) (Task.assignedToId task),
                      Task.completedAt := patch_opt (TaskData.completedAt taskData) (Task.completedAt task)\<rparr>;
                    updatedTask = \<lparr>TaskObject.id = Task.id task,
                      title = TaskData.title taskData,
                      description = TaskData.description taskData,
                      status = TaskData.status taskData,
                      priority = TaskData.priority taskData,
                      assignedToId = TaskData.assignedToId taskData,
                      createdBy = Some (Task.createdBy task),
                      completedAt = TaskData.completedAt taskData\<rparr>
                in (Inr updatedTask, store_task savedRow d))
          else (Inl DatabaseError, d))"

definition typeorm_task_delete :: "int \<Rightarrow> db \<Rightarrow> unit result \<times> db" where
  "typeorm_task_delete i d = delete_task i d"

subsection \<open>TaskService (second document of apps/typeorm/src/services/authService.ts)\<close>

definition typeorm_createTask :: "TaskData \<Rightarrow> int \<Rightarrow> UserRole \<Rightarrow> db \<Rightarrow> Task result \<times> db" where
  "typeorm_createTask taskData uid userRole d =
     (if userRole \<noteq> ADMIN \<and> userRole \<noteq> MANAGER
      then (Inl (UnauthorizedException ''Only ADMIN and MANAGER can create tasks''), d)
      else typeorm_task_create
             (taskData\<lparr>TaskData.createdBy := Some uid,
                TaskData.assignedToId := Some (or_number (TaskData.assignedToId taskData) uid)\<rparr>) d)"

definition typeorm_getTaskById :: "int \<Rightarrow> int \<Rightarrow> UserRole \<Rightarrow> db \<Rightarrow> Task result \<times> db" where
  "typeorm_getTaskById taskId uid userRole d =
     (case typeorm_task_findById taskId d of
        Inl error \<Rightarrow> (Inl error, d)
      | Inr None \<Rightarrow> (Inl (NotFoundException (''Task with id '' @ number_toString taskId @ '' not found'')), d)
      | Inr (Some task) \<Rightarrow>
          if userRole = ADMIN then (Inr task, d)
          else if userRole = MANAGER \<and> (Task.createdBy task = uid \<or> Task.assignedToId task = uid)
          then (Inr task, d)
          else if userRole = USER \<and> Task.assignedToId task = uid then (Inr task, d)
          else (Inl (UnauthorizedException ''You do not have permission to access this task''), d))"

definition typeorm_updateTask :: "int \<Rightarrow> TaskData \<Rightarrow> int \<Rightarrow> UserRole \<Rightarrow> db \<Rightarrow> TaskObject result \<times> db" where
  "typeorm_updateTask taskId taskData uid userRole d =
     (case typeorm_task_findById taskId d of
        Inl error \<Rightarrow> (Inl error, d)
      | Inr None \<Rightarrow> (Inl (NotFoundException (''Task with id '' @ number_toString taskId @ '' not found'')), d)
      | Inr (Some task) \<Rightarrow>
          if userRole = ADMIN then typeorm_task_update taskId taskData d
          else if userRole = MANAGER \<and> Task.createdBy task = uid
          then typeorm_task_update taskId taskData d
          else if userRole = USER \<and> Task.assignedToId task = uid
          then (let allowedUpdates = noTaskData\<lparr>TaskData.status := TaskData.status taskData,
                      TaskData.completedAt := TaskData.completedAt taskData\<rparr>
                in typeorm_task_update taskId allowedUpdates d)
          else (Inl (UnauthorizedException ''You do not have permission to update this task''), d))"

definition typeorm_deleteTask :: "int \<Rightarrow> int \<Rightarrow> UserRole \<Rightarrow> db \<Rightarrow> bool result \<times> db" where
  "typeorm_deleteTask taskId uid userRole d =
     (case typeorm_task_findById taskId d of
        Inl error \<Rightarrow> (Inl error, d)
      | Inr None \<Rightarrow> (Inl (NotFoundException (''Task with id '' @ number_toString taskId @ '' not found'')), d)
      | Inr (Some task) \<Rightarrow>
          if userRole \<noteq> ADMIN then (Inl (UnauthorizedException ''Only ADMIN can delete tasks''), d)
          else (case typeorm_task_delete taskId d of
                  (Inl error, d') \<Rightarrow> (Inl error, d')
                | (Inr done, d') \<Rightarrow> (Inr True, d')))"

definition typeorm_assignTask :: "int \<Rightarrow> int \<Rightarrow> int \<Rightarrow> UserRole \<Rightarrow> db \<Rightarrow> TaskObject result \<times> db" where
  "typeorm_assignTask taskId assigneeId uid userRole d =
     (case typeorm_task_findById taskId d of
        Inl error \<Rightarrow> (Inl error, d)
      | Inr None \<Rightarrow> (Inl (NotFoundException (''Task with id '' @ number_toString taskId @ '' not found'')), d)
      | Inr (Some task) \<Rightarrow>
          if userRole \<noteq> ADMIN \<and> userRole \<noteq> MANAGER
          then (Inl (UnauthorizedException ''Only ADMIN and MANAGER can assign tasks''), d)
          else (case typeorm_user_findById assigneeId d of
                  Inl error \<Rightarrow> (Inl error, d)
                | Inr None \<Rightarrow> (Inl (NotFoundException
                              (''User with id '' @ number_toString assigneeId @ '' not found'')), d)
                | Inr (Some assignee) \<Rightarrow>
                    typeorm_task_update taskId (noTaskData\<lparr>TaskData.assignedToId := Some assigneeId\<rparr>) d))"

definition typeorm_updateTaskStatus :: "int \<Rightarrow> TaskStatus \<Rightarrow> int \<Rightarrow> UserRole \<Rightarrow> db \<Rightarrow> TaskObject result \<times> db" where
  "typeorm_updateTaskStatus taskId newStatus uid userRole d =
     (case typeorm_task_findById taskId d of
        Inl error \<Rightarrow> (Inl error, d)
      | Inr None \<Rightarrow> (Inl (NotFoundException (''Task with id '' @ number_toString taskId @ '' not found'')), d)
      | Inr (Some task) \<Rightarrow>
          (let canUpdate = (userRole = ADMIN \<or> userRole = MANAGER
                            \<or> (userRole = USER \<and> Task.assignedToId task = uid))
           in if \<not> canUpdate
              then (Inl (UnauthorizedException
                          ''You do not have permission to update this task status''), d)
              else typeorm_task_update taskId (noTaskData\<lparr>TaskData.status := Some newStatus\<rparr>) d))"

definition typeorm_updateTaskDueDate :: "int \<Rightarrow> int \<Rightarrow> int \<Rightarrow> UserRole \<Rightarrow> db \<Rightarrow> TaskObject result \<times> db" where
  "typeorm_updateTaskDueDate taskId newDueDate uid userRole d =
     (case typeorm_task_findById taskId d of
        Inl error \<Rightarrow> (Inl error, d)
      | Inr None \<Rightarrow> (Inl (NotFoundException (''Task with id '' @ number_toString taskId @ '' not found'')), d)
      | Inr (Some task) \<Rightarrow>
          if userRole \<noteq> ADMIN \<and> userRole \<noteq> MANAGER
          then (Inl (UnauthorizedException ''Only ADMIN and MANAGER can update due date''), d)
          else typeorm_task_update taskId (noTaskData\<lparr>TaskData.dueDate := Some newDueDate\<rparr>) d)"

definition typeorm_updateTaskPriority :: "int \<Rightarrow> TaskPriority \<Rightarrow> int \<Rightarrow> UserRole \<Rightarrow> db \<Rightarrow> TaskObject result \<times> db" where
  "typeorm_updateTaskPriority taskId newPriority uid userRole d =
     (case typeorm_task_findById taskId d of
        Inl error \<Rightarrow> (Inl error, d)
      | Inr None \<Rightarrow> (Inl (NotFoundException (''Task with id '' @ number_toString taskId @ '' not found'')), d)
      | Inr (Some task) \<Rightarrow>
          if userRole \<noteq> ADMIN \<and> userRole \<noteq> MANAGER
          then (Inl (UnauthorizedException ''Only ADMIN and MANAGER can update task priority''), d)
          else typeorm_task_update taskId (noTaskData\<lparr>TaskData.priority := Some newPriority\<rparr>) d)"

section \<open>Objection variant\<close>

subsection \<open>Repositories (apps/objection/src/repositories/userRepository.ts, and the
  Objection task repository in apps/sequelize/src/seeds/seed.ts)\<close>

text \<open>The \<open>User\<close> model maps its column names, so a user comes back whole.\<close>

definition objection_user_findById :: "int \<Rightarrow> db \<Rightarrow> User option result" where
  "objection_user_findById i d =
     (case select_user i d of
        Inl error \<Rightarrow> Inl error
      | Inr None \<Rightarrow> Inr None
      | Inr (Some dbUser) \<Rightarrow> Inr (Some (dbUser\<lparr>lastName := or_undefined (lastName dbUser)\<rparr>)))"

text \<open>
  The \<open>Task\<close> model (second document of apps/objection/src/services/userService.ts) has no
  \<open>columnNameMappers\<close>, and the migration names the columns \<open>assigned_to_id\<close>, \<open>created_by\<close>
  and \<open>completed_at\<close>. A fetched row therefore carries those three values under names the
  service does not read: \<open>assignedToId\<close>, \<open>createdBy\<close> and \<open>completedAt\<close> are \<open>undefined\<close>
  on the object. Every object the repository returns has
  \<open>description: task.description || undefined\<close>.
\<close>

definition objection_fetched :: "Task \<Rightarrow> TaskObject" where
  "objection_fetched dbTask =
     \<lparr>TaskObject.id = Task.id dbTask,
      title = Some (Task.title dbTask),
      description = or_undefined (Task.description dbTask),
      status = Some (Task.status dbTask),
      priority = Some (Task.priority dbTask),
      assignedToId = None, createdBy = None, completedAt = None\<rparr>"


definition objection_task_findById :: "int \<Rightarrow> db \<Rightarrow> TaskObject option result" where
  "objection_task_findById i d =
     (case select_task i d of
        Inl error \<Rightarrow> Inl error
      | Inr None \<Rightarrow> Inr None
      | Inr (Some dbTask) \<Rightarrow> Inr (Some (objection_fetched dbTask)))"

text \<open>
  \<open>patchAndFetchById\<close> fails when the patch breaks the model's schema (a title that is
  empty or longer than 255), names something that is no column (\<open>assignedToId\<close>,
  \<open>createdBy\<close>, \<open>completedAt\<close>, \<open>dueDate\<close>) or defines nothing at all. Otherwise it writes
  \<open>title\<close>, \<open>description\<close>, \<open>status\<close> and \<open>priority\<close> and fetches the row, or returns
  nothing when no row has the id.
\<close>

definition objection_patch_accepted :: "TaskData \<Rightarrow> bool" where
  "objection_patch_accepted taskData \<longleftrightarrow>
     where_defined (\<lambda>t. 1 \<le> length t \<and> length t \<le> 255) (TaskData.title taskData) \<and>
     TaskData.assignedToId taskData = None \<and> TaskData.createdBy taskData = None \<and>
     TaskData.completedAt taskData = None \<and> TaskData.dueDate taskData = None \<and>
     \<not> no_column_defined taskData"

definition objection_task_update :: "int \<Rightarrow> TaskData \<Rightarrow> db \<Rightarrow> TaskObject result \<times> db" where
  "objection_task_update i taskData d =
     (if objection_patch_accepted taskData
      then (case select_task i d of
              Inl error \<Rightarrow> (Inl error, d)
            | Inr None \<Rightarrow> (Inl (Error ''Task not found''), d)
            | Inr (Some row) \<Rightarrow>
                (let task = row\<lparr>
                       Task.title := patch (TaskData.title taskData) (Task.title row),
                       Task.description := patch_opt (TaskData.description taskData) (Task.description row),
                       Task.status := patch (TaskData.status taskData) (Task.status row),
                       Task.priority := patch (TaskData.priority taskData) (Task.priority row)\<rparr>
                 in (Inr (objection_fetched task), store_task task d)))
      else (Inl DatabaseError, d))"

definition objection_task_delete :: "int \<Rightarrow> db \<Rightarrow> unit result \<times> db" where
  "objection_task_delete i d = delete_task i d"

subsection \<open>TaskService (third document of apps/objection/src/repositories/userRepository.ts)\<close>


definition objection_getTaskById :: "int \<Rightarrow> int \<Rightarrow> UserRole \<Rightarrow> db \<Rightarrow> TaskObject result \<times> db" where
  "objection_getTaskById taskId uid userRole d =
     (case objection_task_findById taskId d of
        Inl error \<Rightarrow> (Inl error, d)
      | Inr None \<Rightarrow> (Inl (NotFoundException (''Task with id '' @ number_toString taskId @ '' not found'')), d)
      | Inr (Some task) \<Rightarrow>
          if userRole = ADMIN then (Inr task, d)
          else if userRole = MANAGER
                  \<and> (TaskObject.createdBy task = Some uid \<or> TaskObject.assignedToId task = Some uid)
          then (Inr task, d)
          else if userRole = USER \<and> TaskObject.assignedToId task = Some uid then (Inr task, d)
          else (Inl (UnauthorizedException ''You do not have permission to access this task''), d))"

definition objection_updateTask :: "int \<Rightarrow> TaskData \<Rightarrow> int \<Rightarrow> UserRole \<Rightarrow> db \<Rightarrow> TaskObject result \<times> db" where
  "objection_updateTask taskId taskData uid userRole d =
     (case objection_task_findById taskId d of
        Inl error \<Rightarrow> (Inl error, d)
      | Inr None \<Rightarrow> (Inl (NotFoundException (''Task with id '' @ number_toString taskId @ '' not found'')), d)
      | Inr (Some task) \<Rightarrow>
          if userRole = ADMIN then objection_task_update taskId taskData d
          else if userRole = MANAGER
                  \<and> (TaskObject.createdBy task = Some uid \<or> TaskObject.assignedToId task = Some uid)
          then objection_task_update taskId taskData d
          else if userRole = USER \<and> TaskObject.assignedToId task = Some uid
          then objection_task_update taskId taskData d
          else (Inl (UnauthorizedException ''You do not have permission to update this task''), d))"

definition objection_updateTaskStatus :: "int \<Rightarrow> TaskStatus \<Rightarrow> int \<Rightarrow> UserRole \<Rightarrow> db \<Rightarrow> TaskObject result \<times> db" where
  "objection_updateTaskStatus taskId newStatus uid userRole d =
     (case objection_task_findById taskId d of
        Inl error \<Rightarrow> (Inl error, d)
      | Inr None \<Rightarrow> (Inl (NotFoundException (''Task with id '' @ number_toString taskId @ '' not found'')), d)
      | Inr (Some task) \<Rightarrow>
          if userRole = USER \<and> TaskObject.assignedToId task \<noteq> Some uid
          then (Inl (UnauthorizedException ''You can only update status of your own tasks''), d)
          else if userRole = MANAGER \<and> TaskObject.createdBy task \<noteq> Some uid
                  \<and> TaskObject.assignedToId task \<noteq> Some uid
          then (Inl (UnauthorizedException ''You do not have permission to update this task''), d)
          else objection_task_update taskId (noTaskData\<lparr>TaskData.status := Some newStatus\<rparr>) d)"

definition objection_updateTaskDueDate :: "int \<Rightarrow> int \<Rightarrow> int \<Rightarrow> UserRole \<Rightarrow> db \<Rightarrow> TaskObject result \<times> db" where
  "objection_updateTaskDueDate taskId newDueDate uid userRole d =
     (if userRole \<noteq> ADMIN \<and> userRole \<noteq> MANAGER
      then (Inl (UnauthorizedException ''Only ADMIN and MANAGER can update task due date''), d)
      else (case objection_task_findById taskId d of
              Inl error \<Rightarrow> (Inl error, d)
            | Inr None \<Rightarrow> (Inl (NotFoundException (''Task with id '' @ number_toString taskId @ '' not found'')), d)
            | Inr (Some task) \<Rightarrow>
                objection_task_update taskId (noTaskData\<lparr>TaskData.dueDate := Some newDueDate\<rparr>) d))"

definition objection_updateTaskPriority :: "int \<Rightarrow> TaskPriority \<Rightarrow> int \<Rightarrow> UserRole \<Rightarrow> db \<Rightarrow> TaskObject result \<times> db" where
  "objection_updateTaskPriority taskId newPriority uid userRole d =
     (if userRole \<noteq> ADMIN \<and> userRole \<noteq> MANAGER
      then (Inl (UnauthorizedException ''Only ADMIN and MANAGER can update task priority''), d)
      else (case objection_task_findById taskId d of
              Inl error \<Rightarrow> (Inl error, d)
            | Inr None \<Rightarrow> (Inl (NotFoundException (''Task with id '' @ number_toString taskId @ '' not found'')), d)
            | Inr (Some task) \<Rightarrow>
                objection_task_update taskId (noTaskData\<lparr>TaskData.priority := Some newPriority\<rparr>) d))"

definition objection_deleteTask :: "int \<Rightarrow> int \<Rightarrow> UserRole \<Rightarrow> db \<Rightarrow> bool result \<times> db" where
  "objection_deleteTask taskId uid userRole d =
     (case objection_task_findById taskId d of
        Inl error \<Rightarrow> (Inl error, d)
      | Inr None \<Rightarrow> (Inl (NotFoundException (''Task with id '' @ number_toString taskId @ '' not found'')), d)
      | Inr (Some task) \<Rightarrow>
          if userRole \<noteq> ADMIN then (Inl (UnauthorizedException ''Only ADMIN can delete tasks''), d)
          else (case objection_task_delete taskId d of
                  (Inl error, d') \<Rightarrow> (Inl error, d')
                | (Inr done, d') \<Rightarrow> (Inr True, d')))"

definition objection_assignTask :: "int \<Rightarrow> int \<Rightarrow> int \<Rightarrow> UserRole \<Rightarrow> db \<Rightarrow> TaskObject result \<times> db" where
  "objection_assignTask taskId assigneeId uid userRole d =
     (case objection_task_findById taskId d of
        Inl error \<Rightarrow> (Inl error, d)
      | Inr None \<Rightarrow> (Inl (NotFoundException (''Task with id '' @ number_toString taskId @ '' not found'')), d)
      | Inr (Some task) \<Rightarrow>
          if userRole \<noteq> ADMIN \<and> userRole \<noteq> MANAGER
          then (Inl (UnauthorizedException ''Only ADMIN and MANAGER can assign tasks''), d)
          else (case objection_user_findById assigneeId d of
                  Inl error \<Rightarrow> (Inl error, d)
                | Inr None \<Rightarrow> (Inl (NotFoundException
                              (''User with id '' @ number_toString assigneeId @ '' not found'')), d)
                | Inr (Some assignee) \<Rightarrow>
                    objection_task_update taskId (noTaskData\<lparr>TaskData.assignedToId := Some assigneeId\<rparr>) d))"

section \<open>AuthService.refreshToken\<close>

text \<open>
  The three services present (Drizzle in src/unnamed/part_009, TypeORM and Prisma in their
  authService.ts) share the same body and differ in the user repository behind it. The
  body runs inside \<open>try\<close>; the \<open>catch\<close> replaces whatever was thrown, the inner
  ``User not found'' included, by ``Invalid refresh token''.
\<close>

record TokenPair =
  token :: token
  refreshToken :: token

definition refreshToken_try ::
  "(int \<Rightarrow> db \<Rightarrow> User option result) \<Rightarrow> config \<Rightarrow> int \<Rightarrow> token \<Rightarrow> db \<Rightarrow> TokenPair result" where
  "refreshToken_try findById cfg now tok d =
     (case verifyToken cfg now tok of
        Inl error \<Rightarrow> Inl error
      | Inr payload \<Rightarrow>
          (case findById (userId payload) d of
             Inl error \<Rightarrow> Inl error
           | Inr None \<Rightarrow> Inl (UnauthorizedException ''User not found'')
           | Inr (Some user) \<Rightarrow>
               (let newToken = generateToken cfg now user;
                    newRefreshToken = generateRefreshToken cfg now user
                in Inr \<lparr>token = newToken, refreshToken = newRefreshToken\<rparr>)))"

definition refreshToken_catch :: "TokenPair result \<Rightarrow> TokenPair result" where
  "refreshToken_catch r =
     (case r of
        Inl error \<Rightarrow> Inl (UnauthorizedException ''Invalid refresh token'')
      | Inr pair \<Rightarrow> Inr pair)"

definition drizzle_refreshToken :: "config \<Rightarrow> int \<Rightarrow> token \<Rightarrow> db \<Rightarrow> TokenPair result" where
  "drizzle_refreshToken cfg now tok d =
     refreshToken_catch (refreshToken_try drizzle_user_findById cfg now tok d)"

definition typeorm_refreshToken :: "config \<Rightarrow> int \<Rightarrow> token \<Rightarrow> db \<Rightarrow> TokenPair result" where
  "typeorm_refreshToken cfg now tok d =
     refreshToken_catch (refreshToken_try typeorm_user_findById cfg now tok d)"

definition prisma_mapToUser :: "User \<Rightarrow> User" where
  "prisma_mapToUser prismaUser = prismaUser\<lparr>lastName := Some (or_string (lastName prismaUser) [])\<rparr>"

definition prisma_user_findById :: "int \<Rightarrow> db \<Rightarrow> User option result" where
  "prisma_user_findById i d =
     (case select_user i d of
        Inl error \<Rightarrow> Inl error
      | Inr None \<Rightarrow> Inr None
      | Inr (Some user) \<Rightarrow> Inr (Some (prisma_mapToUser user)))"

definition prisma_refreshToken :: "config \<Rightarrow> int \<Rightarrow> token \<Rightarrow> db \<Rightarrow> TokenPair result" where
  "prisma_refreshToken cfg now tok d =
     refreshToken_catch (refreshToken_try prisma_user_findById cfg now tok d)"

section \<open>Authentication middleware (packages/common/src/middlewares/authMiddleware.ts)\<close>

text \<open>
  The bearer token is the second word of the authorization header, absent when there is
  none. The user finder is optional and returns the user's id and \<open>isActive\<close> flag. The
  result is what the middleware stores on the request, or the exception it hands to
  \<open>next\<close>: an \<open>UnauthorizedException\<close> thrown inside is handed on as it is, anything else
  becomes ``Invalid or expired token''.
\<close>

type_synonym UserFinder = "int \<Rightarrow> db \<Rightarrow> (int \<times> bool) option result"

definition createAuthMiddleware ::
  "UserFinder option \<Rightarrow> config \<Rightarrow> int \<Rightarrow> token option \<Rightarrow> db \<Rightarrow> DecodedToken result" where
  "createAuthMiddleware findUserById cfg now bearer d =
     (case bearer of
        None \<Rightarrow> Inl (UnauthorizedException ''Access token is required'')
      | Some tok \<Rightarrow>
          (case verifyToken cfg now tok of
             Inl error \<Rightarrow> Inl error
           | Inr decoded \<Rightarrow>
               (case findUserById of
                  None \<Rightarrow> Inr decoded
                | Some finder \<Rightarrow>
                    (case finder (userId decoded) d of
                       Inl error \<Rightarrow> Inl (UnauthorizedException ''Invalid or expired token'')
                     | Inr None \<Rightarrow> Inl (UnauthorizedException ''User no longer exists'')
                     | Inr (Some (i, active)) \<Rightarrow>
                         if \<not> active then Inl (UnauthorizedException ''User account is inactive'')
                         else Inr decoded))))"

text \<open>The Drizzle application's \<open>authenticate\<close> (apps/drizzle/src/middleware/auth.ts).\<close>

definition drizzle_userFinder :: UserFinder where
  "drizzle_userFinder i d =
     (case drizzle_user_findById i d of
        Inl error \<Rightarrow> Inl error
      | Inr None \<Rightarrow> Inr None
      | Inr (Some user) \<Rightarrow> Inr (Some (User.id user, isActive user)))"

definition drizzle_authenticate :: "config \<Rightarrow> int \<Rightarrow> token option \<Rightarrow> db \<Rightarrow> DecodedToken result" where
  "drizzle_authenticate = createAuthMiddleware (Some drizzle_userFinder)"

section \<open>Reading an outcome\<close>

text \<open>
  A service call yields what it returned or threw, and the database it leaves. \<open>returned f\<close>
  reads field \<open>f\<close> of the returned task (keeping an exception as it is); \<open>stored f i\<close>
  reads field \<open>f\<close> of the row with id \<open>i\<close> in the database left behind.
\<close>

definition returned :: "('a \<Rightarrow> 'b) \<Rightarrow> 'a result \<times> db \<Rightarrow> 'b result" where
  "returned f outcome = map_sum (\<lambda>e. e) f (fst outcome)"

definition stored :: "(Task \<Rightarrow> 'b) \<Rightarrow> int \<Rightarrow> 'a result \<times> db \<Rightarrow> 'b option" where
  "stored f i outcome = map_option f (tasks (snd outcome) i)"

section \<open>A concrete database\<close>

text \<open>
  An administrator (id 1), a manager (id 2), a user (id 3) and a deactivated user (id 4);
  task 1 was created by the administrator and is assigned to the user.
\<close>

definition admin1 :: User where
  "admin1 = \<lparr>User.id = 1, email = ''admin@example.com'', firstName = ''Admin'',
     lastName = Some ''One'', isActive = True, role = ADMIN, password = ''hash1''\<rparr>"

definition manager2 :: User where
  "manager2 = \<lparr>User.id = 2, email = ''manager@example.com'', firstName = ''Manager'',
     lastName = Some ''Two'', isActive = True, role = MANAGER, password = ''hash2''\<rparr>"

definition user3 :: User where
  "user3 = \<lparr>User.id = 3, email = ''user@example.com'', firstName = ''User'',
     lastName = Some ''Three'', isActive = True, role = USER, password = ''hash3''\<rparr>"

definition inactive4 :: User where
  "inactive4 = \<lparr>User.id = 4, email = ''former@example.com'', firstName = ''Former'',
     lastName = Some ''Four'', isActive = False, role = USER, password = ''hash4''\<rparr>"

definition task1 :: Task where
  "task1 = \<lparr>Task.id = 1, title = ''Write report'', description = Some ''Quarterly figures'',
     status = PENDING, priority = MEDIUM, assignedToId = 3, createdBy = 1,
     completedAt = None\<rparr>"

definition db0 :: db where
  "db0 = \<lparr>tasks = [1 \<mapsto> task1],
           users = [1 \<mapsto> admin1, 2 \<mapsto> manager2, 3 \<mapsto> user3, 4 \<mapsto> inactive4],
           nextTaskId = 2\<rparr>"

definition cfg0 :: config where
  "cfg0 = \<lparr>jwt_secret = ''test-secret''\<rparr>"

text \<open>The same database after user 3 has been promoted to MANAGER.\<close>

definition promoted3 :: User where
  "promoted3 = user3\<lparr>User.role := MANAGER\<rparr>"

definition db_promoted :: db where
  "db_promoted = db0\<lparr>users := (users db0)(3 \<mapsto> promoted3)\<rparr>"

text \<open>A user who once held tokens and whose row is no longer in the database.\<close>

definition removed9 :: User where
  "removed9 = \<lparr>User.id = 9, email = ''removed@example.com'', firstName = ''Removed'',
     lastName = None, isActive = True, role = USER, password = ''hash9''\<rparr>"

text \<open>A creation payload holding a title and nothing else.\<close>

definition titleOnly :: TaskData where
  "titleOnly = noTaskData\<lparr>TaskData.title := Some ''Plan release''\<rparr>"

text \<open>
  The payload of a user who sends a new title and priority along with the new status.
\<close>

definition statusAndMore :: TaskData where
  "statusAndMore = noTaskData\<lparr>TaskData.title := Some ''new title'',
     TaskData.status := Some COMPLETED, TaskData.priority := Some URGENT\<rparr>"

section \<open>Basic facts\<close>

declare digits_of.simps [simp del]

lemmas token_defs = verifyToken_def generateToken_def generateRefreshToken_def
  jwt_sign_def jwt_verify_def seconds_24h_def seconds_7d_def

lemmas task_findById_defs = drizzle_task_findById_def typeorm_task_findById_def
  objection_task_findById_def

lemmas createTask_defs = drizzle_createTask_def drizzle_task_create_def
  typeorm_createTask_def typeorm_task_create_def
  insert_task_def or_number_def returned_def stored_def

lemma number_toString_7: "number_toString 7 = ''7''"
  by (simp add: number_toString_def digits_of.simps digit_def)

lemma number_toString_999: "number_toString 999 = ''999''"
  by (simp add: number_toString_def digits_of.simps digit_def)

lemma select_task_present: "tasks d i = Some row \<Longrightarrow> select_task i d = Inr (Some row)"
  by (simp add: select_task_def)

lemma select_task_absent: "tasks d i = None \<Longrightarrow> int4 i \<Longrightarrow> select_task i d = Inr None"
  by (simp add: select_task_def)

lemma select_task_out_of_range:
  "tasks d i = None \<Longrightarrow> \<not> int4 i \<Longrightarrow> select_task i d = Inl DatabaseError"
  by (simp add: select_task_def)

section \<open>Token issuance and verification\<close>

text \<open>
  Claim C7. For every user \<open>u\<close>, verifying the access token issued for \<open>u\<close> with the same
  signing secret, at any time before its expiry (24 hours after issuance), returns the
  claims \<open>userId = u.id\<close>, \<open>email = u.email\<close>, \<open>role = u.role\<close> (together with the issue and
  expiry times the library adds).
\<close>

theorem C7_verify_generateToken:
  assumes "now < issued + seconds_24h"
  shows "verifyToken cfg now (generateToken cfg issued u) =
           Inr \<lparr>userId = User.id u, email = User.email u, role = User.role u,
                iat = issued, exp = issued + seconds_24h\<rparr>"
  using assms by (simp add: verifyToken_def generateToken_def jwt_sign_def jwt_verify_def)

theorem C7_verify_generateToken_witness:
  "(3600::int) < 0 + seconds_24h \<and>
   verifyToken cfg0 3600 (generateToken cfg0 0 manager2) =
     Inr \<lparr>userId = 2, email = ''manager@example.com'', role = MANAGER,
          iat = 0, exp = 86400\<rparr>"
proof -
  have before_expiry: "(3600::int) < 0 + seconds_24h"
    by (simp add: seconds_24h_def)
  from C7_verify_generateToken [OF before_expiry, of cfg0 manager2] before_expiry
  show ?thesis by (simp add: manager2_def seconds_24h_def)
qed

section \<open>Changing the status of a task\<close>

text \<open>
  On an existing task, the Drizzle service lets a MANAGER change the status exactly when
  the manager created the task or is its assignee.
\<close>

lemma drizzle_updateTaskStatus_manager:
  assumes "tasks d taskId = Some task"
  shows "drizzle_updateTaskStatus taskId newStatus uid MANAGER d =
           (if Task.createdBy task = uid \<or> Task.assignedToId task = uid
            then (Inr (task\<lparr>Task.status := newStatus\<rparr>), store_task (task\<lparr>Task.status := newStatus\<rparr>) d)
            else (Inl (UnauthorizedException ''You do not have permission to update this task''), d))"
  using assms
  by (cases task)
     (simp add: drizzle_updateTaskStatus_def drizzle_task_findById_def select_task_present
        drizzle_task_update_def no_column_defined_def noTaskData_def where_defined_def
        patch_def patch_opt_def Let_def)

text \<open>
  The TypeORM service asks a MANAGER for neither: \<open>canUpdate\<close> holds for the role alone,
  and the new status is written.
\<close>

lemma typeorm_updateTaskStatus_manager:
  assumes "tasks d taskId = Some task"
  shows "succeeds (fst (typeorm_updateTaskStatus taskId newStatus uid MANAGER d))"
    and "snd (typeorm_updateTaskStatus taskId newStatus uid MANAGER d) =
           store_task (task\<lparr>Task.status := newStatus\<rparr>) d"
  using assms
  by (cases task;
      simp add: typeorm_updateTaskStatus_def typeorm_task_findById_def select_task_present
        typeorm_task_update_def noTaskData_def where_defined_def
        patch_def patch_opt_def Let_def)+

text \<open>
  The Objection service reads \<open>createdBy\<close> and \<open>assignedToId\<close> off an object that does not
  have them, and refuses every MANAGER, the task's creator and assignee included.
\<close>

lemma objection_updateTaskStatus_manager:
  assumes "tasks d taskId = Some task"
  shows "objection_updateTaskStatus taskId newStatus uid MANAGER d =
           (Inl (UnauthorizedException ''You do not have permission to update this task''), d)"
  using assms
  by (simp add: objection_updateTaskStatus_def objection_task_findById_def select_task_present
        objection_fetched_def)

text \<open>
  Claim C1 (a MANAGER may change a task's status if and only if the manager created the
  task or is its assignee, in every variant). Task 1 was created by user 1 and is assigned
  to user 3, and its status is PENDING. For the manager with id 2, the TypeORM service
  succeeds and stores the status COMPLETED, where the Drizzle service refuses with
  \<open>UnauthorizedException\<close> and leaves the database as it was.
\<close>

theorem C1_typeorm_manager_changes_status_of_unrelated_task:
  "tasks db0 1 = Some task1 \<and> Task.createdBy task1 = 1 \<and> Task.assignedToId task1 = 3 \<and>
   succeeds (fst (typeorm_updateTaskStatus 1 COMPLETED 2 MANAGER db0)) \<and>
   stored Task.status 1 (typeorm_updateTaskStatus 1 COMPLETED 2 MANAGER db0) = Some COMPLETED \<and>
   Task.status task1 = PENDING \<and>
   drizzle_updateTaskStatus 1 COMPLETED 2 MANAGER db0 =
     (Inl (UnauthorizedException ''You do not have permission to update this task''), db0)"
  by (simp add: typeorm_updateTaskStatus_def typeorm_task_findById_def typeorm_task_update_def
        drizzle_updateTaskStatus_def drizzle_task_findById_def select_task_def stored_def
        db0_def task1_def noTaskData_def where_defined_def patch_def patch_opt_def
        store_task_def Let_def)

section \<open>General update by the assignee\<close>

text \<open>
  In the Drizzle service a USER updating a task assigned to them changes its \<open>status\<close> and
  \<open>completedAt\<close> (where the payload has them) and nothing else, whatever else the payload
  holds. When the payload has neither, the allow-list is empty and the update is refused
  by the query builder.
\<close>

lemma drizzle_updateTask_user_assignee:
  assumes "tasks d taskId = Some task" and "Task.assignedToId task = uid"
  shows "drizzle_updateTask taskId taskData uid USER d =
           (if TaskData.status taskData = None \<and> TaskData.completedAt taskData = None
            then (Inl (Error ''No values to set''), d)
            else (let updatedTask = task\<lparr>
                        Task.status := patch (TaskData.status taskData) (Task.status task),
                        Task.completedAt := patch_opt (TaskData.completedAt taskData) (Task.completedAt task)\<rparr>
                  in (Inr updatedTask, store_task updatedTask d)))"
  using assms
  by (cases task)
     (auto simp add: drizzle_updateTask_def drizzle_task_findById_def select_task_present
        drizzle_task_update_def no_column_defined_def noTaskData_def where_defined_def
        patch_def patch_opt_def Let_def)

text \<open>
  In the TypeORM service the same update succeeds and the stored row changes in
  \<open>status\<close> and \<open>completedAt\<close> only.
\<close>

lemma typeorm_updateTask_user_assignee:
  assumes "tasks d taskId = Some task" and "Task.assignedToId task = uid"
  shows "succeeds (fst (typeorm_updateTask taskId taskData uid USER d))"
    and "snd (typeorm_updateTask taskId taskData uid USER d) =
           store_task (task\<lparr>
               Task.status := patch (TaskData.status taskData) (Task.status task),
               Task.completedAt := patch_opt (TaskData.completedAt taskData) (Task.completedAt task)\<rparr>) d"
  using assms
  by (cases task;
      simp add: typeorm_updateTask_def typeorm_task_findById_def select_task_present
        typeorm_task_update_def noTaskData_def where_defined_def
        patch_def patch_opt_def Let_def)+

text \<open>
  The Objection service refuses every USER on an existing task: the ownership test reads
  \<open>assignedToId\<close> off an object that does not have it.
\<close>

lemma objection_updateTask_user:
  assumes "tasks d taskId = Some task"
  shows "objection_updateTask taskId taskData uid USER d =
           (Inl (UnauthorizedException ''You do not have permission to update this task''), d)"
  using assms
  by (simp add: objection_updateTask_def objection_task_findById_def select_task_present
        objection_fetched_def)

text \<open>
  Claim C3 (a USER's general update of a task assigned to them succeeds and changes only
  \<open>status\<close> and \<open>completedAt\<close>; the other fields of the payload are dropped). User 3, the
  assignee of task 1, submits a new title, status COMPLETED and priority URGENT. The
  Objection service refuses with \<open>UnauthorizedException\<close> and writes nothing. The Drizzle
  and TypeORM services apply the status only; the Drizzle service fails when the payload
  holds a title and nothing else.
\<close>

theorem C3_objection_refuses_the_assignee:
  "tasks db0 1 = Some task1 \<and> Task.assignedToId task1 = 3 \<and>
   TaskData.status statusAndMore = Some COMPLETED \<and>
   objection_updateTask 1 statusAndMore 3 USER db0 =
     (Inl (UnauthorizedException ''You do not have permission to update this task''), db0) \<and>
   fst (drizzle_updateTask 1 statusAndMore 3 USER db0) = Inr (task1\<lparr>Task.status := COMPLETED\<rparr>) \<and>
   succeeds (fst (typeorm_updateTask 1 statusAndMore 3 USER db0)) \<and>
   tasks (snd (typeorm_updateTask 1 statusAndMore 3 USER db0)) 1 =
     Some (task1\<lparr>Task.status := COMPLETED\<rparr>) \<and>
   drizzle_updateTask 1 titleOnly 3 USER db0 = (Inl (Error ''No values to set''), db0)"
  by (simp add: titleOnly_def objection_updateTask_def objection_task_findById_def objection_fetched_def
        drizzle_updateTask_def drizzle_task_findById_def drizzle_task_update_def
        typeorm_updateTask_def typeorm_task_findById_def typeorm_task_update_def
        select_task_def no_column_defined_def where_defined_def
        statusAndMore_def db0_def task1_def noTaskData_def patch_def patch_opt_def
        store_task_def Let_def)

section \<open>Operations on a task id that does not exist\<close>

lemma missing_task_existence_first:
  assumes "tasks d taskId = None" and "int4 taskId"
  shows "fst (drizzle_getTaskById taskId uid userRole d) =
           Inl (NotFoundException (''Task with id '' @ number_toString taskId @ '' not found''))"
    and "fst (drizzle_updateTask taskId taskData uid userRole d) =
           Inl (NotFoundException (''Task with id '' @ number_toString taskId @ '' not found''))"
    and "fst (drizzle_deleteTask taskId uid userRole d) =
           Inl (NotFoundException (''Task with id '' @ number_toString taskId @ '' not found''))"
    and "fst (drizzle_assignTask taskId assigneeId uid userRole d) =
           Inl (NotFoundException (''Task with id '' @ number_toString taskId @ '' not found''))"
    and "fst (drizzle_updateTaskStatus taskId newStatus uid userRole d) =
           Inl (NotFoundException (''Task with id '' @ number_toString taskId @ '' not found''))"
    and "fst (typeorm_getTaskById taskId uid userRole d) =
           Inl (NotFoundException (''Task with id '' @ number_toString taskId @ '' not found''))"
    and "fst (typeorm_updateTask taskId taskData uid userRole d) =
           Inl (NotFoundException (''Task with id '' @ number_toString taskId @ '' not found''))"
    and "fst (typeorm_deleteTask taskId uid userRole d) =
           Inl (NotFoundException (''Task with id '' @ number_toString taskId @ '' not found''))"
    and "fst (typeorm_assignTask taskId assigneeId uid userRole d) =
           Inl (NotFoundException (''Task with id '' @ number_toString taskId @ '' not found''))"
    and "fst (typeorm_updateTaskStatus taskId newStatus uid userRole d) =
           Inl (NotFoundException (''Task with id '' @ number_toString taskId @ '' not found''))"
    and "fst (typeorm_updateTaskPriority taskId newPriority uid userRole d) =
           Inl (NotFoundException (''Task with id '' @ number_toString taskId @ '' not found''))"
    and "fst (typeorm_updateTaskDueDate taskId newDueDate uid userRole d) =
           Inl (NotFoundException (''Task with id '' @ number_toString taskId @ '' not found''))"
    and "fst (objection_getTaskById taskId uid userRole d) =
           Inl (NotFoundException (''Task with id '' @ number_toString taskId @ '' not found''))"
    and "fst (objection_updateTask taskId taskData uid userRole d) =
           Inl (NotFoundException (''Task with id '' @ number_toString taskId @ '' not found''))"
    and "fst (objection_deleteTask taskId uid userRole d) =
           Inl (NotFoundException (''Task with id '' @ number_toString taskId @ '' not found''))"
    and "fst (objection_assignTask taskId assigneeId uid userRole d) =
           Inl (NotFoundException (''Task with id '' @ number_toString taskId @ '' not found''))"
    and "fst (objection_updateTaskStatus taskId newStatus uid userRole d) =
           Inl (NotFoundException (''Task with id '' @ number_toString taskId @ '' not found''))"
  using assms
  by (simp_all add: drizzle_getTaskById_def drizzle_updateTask_def drizzle_deleteTask_def
        drizzle_assignTask_def drizzle_updateTaskStatus_def drizzle_task_findById_def
        typeorm_getTaskById_def typeorm_updateTask_def typeorm_deleteTask_def
        typeorm_assignTask_def typeorm_updateTaskStatus_def typeorm_updateTaskPriority_def
        typeorm_updateTaskDueDate_def typeorm_task_findById_def
        objection_getTaskById_def objection_updateTask_def objection_deleteTask_def
        objection_assignTask_def objection_updateTaskStatus_def objection_task_findById_def
        select_task_absent)

lemma missing_task_role_gate_first:
  assumes "tasks d taskId = None" and "int4 taskId"
  shows "fst (drizzle_updateTaskPriority taskId newPriority uid userRole d) =
           (if userRole = USER
            then Inl (UnauthorizedException ''Only ADMIN and MANAGER can update task priority'')
            else Inl (NotFoundException (''Task with id '' @ number_toString taskId @ '' not found'')))"
    and "fst (drizzle_updateTaskDueDate taskId newDueDate uid userRole d) =
           (if userRole = USER
            then Inl (UnauthorizedException ''Only ADMIN and MANAGER can update task due date'')
            else Inl (NotFoundException (''Task with id '' @ number_toString taskId @ '' not found'')))"
    and "fst (objection_updateTaskPriority taskId newPriority uid userRole d) =
           (if userRole = USER
            then Inl (UnauthorizedException ''Only ADMIN and MANAGER can update task priority'')
            else Inl (NotFoundException (''Task with id '' @ number_toString taskId @ '' not found'')))"
    and "fst (objection_updateTaskDueDate taskId newDueDate uid userRole d) =
           (if userRole = USER
            then Inl (UnauthorizedException ''Only ADMIN and MANAGER can update task due date'')
            else Inl (NotFoundException (''Task with id '' @ number_toString taskId @ '' not found'')))"
  using assms
  by (cases userRole;
      simp add: drizzle_updateTaskPriority_def drizzle_updateTaskDueDate_def drizzle_task_findById_def
        objection_updateTaskPriority_def objection_updateTaskDueDate_def objection_task_findById_def
        select_task_absent)+

text \<open>
An id outside the range of the id column makes the lookup itself fail.
\<close>

lemma out_of_range_task_id:
  assumes "tasks d taskId = None" and "\<not> int4 taskId"
  shows "drizzle_getTaskById taskId uid userRole d = (Inl DatabaseError, d)"
    and "typeorm_getTaskById taskId uid userRole d = (Inl DatabaseError, d)"
    and "objection_getTaskById taskId uid userRole d = (Inl DatabaseError, d)"
  using assms
  by (simp_all add: drizzle_getTaskById_def typeorm_getTaskById_def objection_getTaskById_def
        task_findById_defs select_task_out_of_range)

text \<open>
  Claim C2, as stated (every operation on a task id that does not exist fails with the
  not-found error whatever the role), fails: task 7 does not exist, and the Drizzle
  service answers a USER who changes its due date or priority with
  \<open>UnauthorizedException\<close>. Nor does a task 2147483648 exist: the id does not fit the id
  column, and the lookup fails with a database error even for an ADMIN.
\<close>

theorem C2_drizzle_role_gate_precedes_lookup_counterexample:
  "tasks db0 7 = None \<and>
   fst (drizzle_updateTaskDueDate 7 1767225600 3 USER db0) =
     Inl (UnauthorizedException ''Only ADMIN and MANAGER can update task due date'') \<and>
   fst (drizzle_updateTaskPriority 7 HIGH 3 USER db0) =
     Inl (UnauthorizedException ''Only ADMIN and MANAGER can update task priority'') \<and>
   tasks db0 2147483648 = None \<and>
   fst (drizzle_getTaskById 2147483648 1 ADMIN db0) = Inl DatabaseError"
  by (simp add: drizzle_updateTaskDueDate_def drizzle_updateTaskPriority_def
        drizzle_getTaskById_def drizzle_task_findById_def select_task_def int4_def db0_def)

text \<open>
  Claim C2, amended. The task id is within the range of the id column (a 32-bit integer)
  and no task has it. Read, general update, delete, assign and status change fail with
  \<open>NotFoundException\<close> naming the task id, whatever the role, in the three services; so do
  priority change and due-date change in the TypeORM service. In the Drizzle and
  Objection services priority change and due-date change pass the role gate first: a USER
  gets \<open>UnauthorizedException\<close>, an ADMIN or MANAGER gets the \<open>NotFoundException\<close>.
\<close>

theorem C2_missing_task:
  assumes "tasks d taskId = None" and "int4 taskId"
  shows "(let notFound = NotFoundException (''Task with id '' @ number_toString taskId @ '' not found'');
              priorityDenied = UnauthorizedException ''Only ADMIN and MANAGER can update task priority'';
              dueDateDenied = UnauthorizedException ''Only ADMIN and MANAGER can update task due date''
          in fst (drizzle_getTaskById taskId uid userRole d) = Inl notFound \<and>
             fst (drizzle_updateTask taskId taskData uid userRole d) = Inl notFound \<and>
             fst (drizzle_deleteTask taskId uid userRole d) = Inl notFound \<and>
             fst (drizzle_assignTask taskId assigneeId uid userRole d) = Inl notFound \<and>
             fst (drizzle_updateTaskStatus taskId newStatus uid userRole d) = Inl notFound \<and>
             fst (typeorm_getTaskById taskId uid userRole d) = Inl notFound \<and>
             fst (typeorm_updateTask taskId taskData uid userRole d) = Inl notFound \<and>
             fst (typeorm_deleteTask taskId uid userRole d) = Inl notFound \<and>
             fst (typeorm_assignTask taskId assigneeId uid userRole d) = Inl notFound \<and>
             fst (typeorm_updateTaskStatus taskId newStatus uid userRole d) = Inl notFound \<and>
             fst (typeorm_updateTaskPriority taskId newPriority uid userRole d) = Inl notFound \<and>
             fst (typeorm_updateTaskDueDate taskId newDueDate uid userRole d) = Inl notFound \<and>
             fst (objection_getTaskById taskId uid userRole d) = Inl notFound \<and>
             fst (objection_updateTask taskId taskData uid userRole d) = Inl notFound \<and>
             fst (objection_deleteTask taskId uid userRole d) = Inl notFound \<and>
             fst (objection_assignTask taskId assigneeId uid userRole d) = Inl notFound \<and>
             fst (objection_updateTaskStatus taskId newStatus uid userRole d) = Inl notFound \<and>
             fst (drizzle_updateTaskPriority taskId newPriority uid userRole d) =
               Inl (if userRole = USER then priorityDenied else notFound) \<and>
             fst (drizzle_updateTaskDueDate taskId newDueDate uid userRole d) =
               Inl (if userRole = USER then dueDateDenied else notFound) \<and>
             fst (objection_updateTaskPriority taskId newPriority uid userRole d) =
               Inl (if userRole = USER then priorityDenied else notFound) \<and>
             fst (objection_updateTaskDueDate taskId newDueDate uid userRole d) =
               Inl (if userRole = USER then dueDateDenied else notFound))"
  unfolding Let_def
  using missing_task_existence_first [OF assms] missing_task_role_gate_first [OF assms]
  by simp

theorem C2_missing_task_witness:
  "tasks db0 7 = None \<and> int4 7 \<and>
   fst (drizzle_getTaskById 7 3 USER db0) = Inl (NotFoundException ''Task with id 7 not found'') \<and>
   fst (objection_deleteTask 7 3 USER db0) = Inl (NotFoundException ''Task with id 7 not found'') \<and>
   fst (typeorm_updateTaskDueDate 7 1767225600 3 USER db0) =
     Inl (NotFoundException ''Task with id 7 not found'') \<and>
   fst (drizzle_updateTaskDueDate 7 1767225600 3 USER db0) =
     Inl (UnauthorizedException ''Only ADMIN and MANAGER can update task due date'') \<and>
   fst (drizzle_updateTaskDueDate 7 1767225600 2 MANAGER db0) =
     Inl (NotFoundException ''Task with id 7 not found'')"
proof -
  have missing: "tasks db0 7 = None"
    by (simp add: db0_def)
  have in_range: "int4 7"
    by (simp add: int4_def)
  from C2_missing_task [OF missing in_range, of 3 USER]
    C2_missing_task [OF missing in_range, of 2 MANAGER] missing in_range
  show ?thesis by (simp add: Let_def number_toString_7)
qed

section \<open>Assigning a task\<close>

text \<open>
  Claim C4. An ADMIN or MANAGER assigns an existing task to an assignee id for which the
  user lookup returns nothing: the operation fails with \<open>NotFoundException\<close> whose message
  names the assignee id, and the database, hence the task, is left as it was. The lookup
  comes after the role gate: a USER is refused with \<open>UnauthorizedException\<close> whatever the
  assignee.
\<close>

theorem C4_assign_to_missing_user:
  assumes "tasks d taskId = Some task" and "userRole = ADMIN \<or> userRole = MANAGER"
  shows "(drizzle_user_findById assigneeId d = Inr None \<longrightarrow>
            drizzle_assignTask taskId assigneeId uid userRole d =
              (Inl (NotFoundException (''User with id '' @ number_toString assigneeId @ '' not found'')), d)) \<and>
         (typeorm_user_findById assigneeId d = Inr None \<longrightarrow>
            typeorm_assignTask taskId assigneeId uid userRole d =
              (Inl (NotFoundException (''User with id '' @ number_toString assigneeId @ '' not found'')), d)) \<and>
         (objection_user_findById assigneeId d = Inr None \<longrightarrow>
            objection_assignTask taskId assigneeId uid userRole d =
              (Inl (NotFoundException (''User with id '' @ number_toString assigneeId @ '' not found'')), d)) \<and>
         drizzle_assignTask taskId assigneeId uid USER d =
           (Inl (UnauthorizedException ''Only ADMIN and MANAGER can assign tasks''), d) \<and>
         typeorm_assignTask taskId assigneeId uid USER d =
           (Inl (UnauthorizedException ''Only ADMIN and MANAGER can assign tasks''), d) \<and>
         objection_assignTask taskId assigneeId uid USER d =
           (Inl (UnauthorizedException ''Only ADMIN and MANAGER can assign tasks''), d)"
  using assms
  by (auto simp add: drizzle_assignTask_def typeorm_assignTask_def objection_assignTask_def
        task_findById_defs select_task_present)

theorem C4_assign_to_missing_user_witness:
  "tasks db0 1 = Some task1 \<and>
   drizzle_user_findById 999 db0 = Inr None \<and>
   typeorm_user_findById 999 db0 = Inr None \<and>
   objection_user_findById 999 db0 = Inr None \<and>
   drizzle_assignTask 1 999 2 MANAGER db0 =
     (Inl (NotFoundException ''User with id 999 not found''), db0) \<and>
   typeorm_assignTask 1 999 2 MANAGER db0 =
     (Inl (NotFoundException ''User with id 999 not found''), db0) \<and>
   objection_assignTask 1 999 2 MANAGER db0 =
     (Inl (NotFoundException ''User with id 999 not found''), db0)"
proof -
  have present: "tasks db0 1 = Some task1"
    by (simp add: db0_def)
  have gate: "MANAGER = ADMIN \<or> MANAGER = MANAGER"
    by simp
  have lookups: "drizzle_user_findById 999 db0 = Inr None" "typeorm_user_findById 999 db0 = Inr None"
    "objection_user_findById 999 db0 = Inr None"
    by (simp_all add: drizzle_user_findById_def typeorm_user_findById_def
          objection_user_findById_def select_user_def int4_def db0_def)
  from C4_assign_to_missing_user [OF present gate, of 999 2] present lookups
  show ?thesis by (simp add: number_toString_999)
qed

section \<open>Refreshing tokens\<close>

text \<open>
  Claim C5 (refresh with a verified token whose subject exists but is inactive fails as an
  authentication failure). User 4 exists with \<open>isActive = false\<close> and holds a refresh token
  that verifies. The Drizzle and Prisma services reissue both tokens. The TypeORM service,
  whose user lookup selects active users only, refuses, and so does the authentication
  middleware of the Drizzle application on an access token of the same user.
\<close>

theorem C5_drizzle_refresh_for_inactive_user:
  "users db0 4 = Some inactive4 \<and> isActive inactive4 = False \<and>
   verifyToken cfg0 3600 (generateRefreshToken cfg0 0 inactive4) =
     Inr \<lparr>userId = 4, email = ''former@example.com'', role = USER, iat = 0, exp = 604800\<rparr> \<and>
   drizzle_refreshToken cfg0 3600 (generateRefreshToken cfg0 0 inactive4) db0 =
     Inr \<lparr>token = generateToken cfg0 3600 inactive4,
          refreshToken = generateRefreshToken cfg0 3600 inactive4\<rparr> \<and>
   prisma_refreshToken cfg0 3600 (generateRefreshToken cfg0 0 inactive4) db0 =
     Inr \<lparr>token = generateToken cfg0 3600 inactive4,
          refreshToken = generateRefreshToken cfg0 3600 inactive4\<rparr> \<and>
   typeorm_refreshToken cfg0 3600 (generateRefreshToken cfg0 0 inactive4) db0 =
     Inl (UnauthorizedException ''Invalid refresh token'') \<and>
   drizzle_authenticate cfg0 3600 (Some (generateToken cfg0 0 inactive4)) db0 =
     Inl (UnauthorizedException ''User account is inactive'')"
  by (simp add: drizzle_refreshToken_def prisma_refreshToken_def typeorm_refreshToken_def
        refreshToken_try_def refreshToken_catch_def select_user_def
        drizzle_user_findById_def prisma_user_findById_def prisma_mapToUser_def
        typeorm_user_findById_def drizzle_authenticate_def createAuthMiddleware_def
        drizzle_userFinder_def token_defs db0_def inactive4_def cfg0_def Let_def or_string_def)

text \<open>
  Claim C6. The refresh token verifies. When the user lookup for its \<open>userId\<close> returns
  nothing, refresh fails with \<open>UnauthorizedException\<close> (``Invalid refresh token''); when it
  returns a user, refresh returns a new access token and a new refresh token, both issued
  for the user record just loaded, not for the claims of the old token.
\<close>

theorem C6_refresh_reissues_from_loaded_user:
  assumes "verifyToken cfg now tok = Inr payload"
  shows "(drizzle_user_findById (userId payload) d = Inr None \<longrightarrow>
            drizzle_refreshToken cfg now tok d = Inl (UnauthorizedException ''Invalid refresh token'')) \<and>
         (\<forall>user. drizzle_user_findById (userId payload) d = Inr (Some user) \<longrightarrow>
            drizzle_refreshToken cfg now tok d =
              Inr \<lparr>token = generateToken cfg now user, refreshToken = generateRefreshToken cfg now user\<rparr>) \<and>
         (typeorm_user_findById (userId payload) d = Inr None \<longrightarrow>
            typeorm_refreshToken cfg now tok d = Inl (UnauthorizedException ''Invalid refresh token'')) \<and>
         (\<forall>user. typeorm_user_findById (userId payload) d = Inr (Some user) \<longrightarrow>
            typeorm_refreshToken cfg now tok d =
              Inr \<lparr>token = generateToken cfg now user, refreshToken = generateRefreshToken cfg now user\<rparr>) \<and>
         (prisma_user_findById (userId payload) d = Inr None \<longrightarrow>
            prisma_refreshToken cfg now tok d = Inl (UnauthorizedException ''Invalid refresh token'')) \<and>
         (\<forall>user. prisma_user_findById (userId payload) d = Inr (Some user) \<longrightarrow>
            prisma_refreshToken cfg now tok d =
              Inr \<lparr>token = generateToken cfg now user, refreshToken = generateRefreshToken cfg now user\<rparr>)"
  using assms
  by (simp add: drizzle_refreshToken_def typeorm_refreshToken_def prisma_refreshToken_def
        refreshToken_try_def refreshToken_catch_def Let_def)

text \<open>
  User 3 holds a refresh token issued while a USER and has since become a MANAGER: the new
  tokens carry MANAGER. The row of user 9 is gone: refresh is refused.
\<close>

theorem C6_refresh_reissues_from_loaded_user_witness:
  "verifyToken cfg0 3600 (generateRefreshToken cfg0 0 user3) =
     Inr \<lparr>userId = 3, email = ''user@example.com'', role = USER, iat = 0, exp = 604800\<rparr> \<and>
   drizzle_user_findById 3 db_promoted = Inr (Some promoted3) \<and>
   typeorm_user_findById 3 db_promoted = Inr (Some promoted3) \<and>
   prisma_user_findById 3 db_promoted = Inr (Some promoted3) \<and>
   drizzle_refreshToken cfg0 3600 (generateRefreshToken cfg0 0 user3) db_promoted =
     Inr \<lparr>token = Signed \<lparr>userId = 3, email = ''user@example.com'', role = MANAGER\<rparr>
                     3600 90000 ''test-secret'',
          refreshToken = Signed \<lparr>userId = 3, email = ''user@example.com'', role = MANAGER\<rparr>
                     3600 608400 ''test-secret''\<rparr> \<and>
   typeorm_refreshToken cfg0 3600 (generateRefreshToken cfg0 0 user3) db_promoted =
     drizzle_refreshToken cfg0 3600 (generateRefreshToken cfg0 0 user3) db_promoted \<and>
   prisma_refreshToken cfg0 3600 (generateRefreshToken cfg0 0 user3) db_promoted =
     drizzle_refreshToken cfg0 3600 (generateRefreshToken cfg0 0 user3) db_promoted \<and>
   verifyToken cfg0 3600 (generateRefreshToken cfg0 0 removed9) =
     Inr \<lparr>userId = 9, email = ''removed@example.com'', role = USER, iat = 0, exp = 604800\<rparr> \<and>
   drizzle_user_findById 9 db0 = Inr None \<and>
   typeorm_user_findById 9 db0 = Inr None \<and>
   prisma_user_findById 9 db0 = Inr None \<and>
   drizzle_refreshToken cfg0 3600 (generateRefreshToken cfg0 0 removed9) db0 =
     Inl (UnauthorizedException ''Invalid refresh token'') \<and>
   typeorm_refreshToken cfg0 3600 (generateRefreshToken cfg0 0 removed9) db0 =
     Inl (UnauthorizedException ''Invalid refresh token'') \<and>
   prisma_refreshToken cfg0 3600 (generateRefreshToken cfg0 0 removed9) db0 =
     Inl (UnauthorizedException ''Invalid refresh token'')"
proof -
  have verified: "verifyToken cfg0 3600 (generateRefreshToken cfg0 0 user3) =
      Inr \<lparr>userId = 3, email = ''user@example.com'', role = USER, iat = 0, exp = 604800\<rparr>"
    by (simp add: token_defs user3_def cfg0_def)
  have found: "drizzle_user_findById 3 db_promoted = Inr (Some promoted3)"
    "typeorm_user_findById 3 db_promoted = Inr (Some promoted3)"
    "prisma_user_findById 3 db_promoted = Inr (Some promoted3)"
    by (simp_all add: drizzle_user_findById_def typeorm_user_findById_def typeorm_mapToUser_def
          prisma_user_findById_def prisma_mapToUser_def or_string_def select_user_def
          db_promoted_def promoted3_def user3_def db0_def)
  have verified': "verifyToken cfg0 3600 (generateRefreshToken cfg0 0 removed9) =
      Inr \<lparr>userId = 9, email = ''removed@example.com'', role = USER, iat = 0, exp = 604800\<rparr>"
    by (simp add: token_defs removed9_def cfg0_def)
  have missing: "drizzle_user_findById 9 db0 = Inr None" "typeorm_user_findById 9 db0 = Inr None"
    "prisma_user_findById 9 db0 = Inr None"
    by (simp_all add: drizzle_user_findById_def typeorm_user_findById_def prisma_user_findById_def
          select_user_def int4_def db0_def)
  have new_tokens: "generateToken cfg0 3600 promoted3 =
      Signed \<lparr>userId = 3, email = ''user@example.com'', role = MANAGER\<rparr> 3600 90000 ''test-secret''"
    "generateRefreshToken cfg0 3600 promoted3 =
      Signed \<lparr>userId = 3, email = ''user@example.com'', role = MANAGER\<rparr> 3600 608400 ''test-secret''"
    by (simp_all add: token_defs promoted3_def user3_def cfg0_def)
  from C6_refresh_reissues_from_loaded_user [OF verified, of db_promoted]
    C6_refresh_reissues_from_loaded_user [OF verified', of db0]
    verified verified' found missing new_tokens
  show ?thesis by simp
qed

section \<open>Creating a task\<close>





section \<open>The default assignee\<close>

text \<open>
An assignee id other than 0 is kept.
\<close>

lemma createTask_keeps_nonzero_assignee:
  assumes "userRole = ADMIN \<or> userRole = MANAGER"
    and "TaskData.title taskData = Some t" and "length t \<le> 255"
    and "TaskData.assignedToId taskData = Some a" and "a \<noteq> 0"
    and "references_user d uid" and "references_user d a" and "int4 (nextTaskId d)"
  shows "returned Task.assignedToId (drizzle_createTask taskData uid userRole d) = Inr a"
    and "returned Task.assignedToId (typeorm_createTask taskData uid userRole d) = Inr a"
  using assms by (auto simp add: createTask_defs Let_def)



section \<open>Deleting a task\<close>

text \<open>
  Claim C9. On an existing task, deletion succeeds if and only if the actor is an ADMIN,
  and then the task is gone. A MANAGER or USER, whatever their relation to the task, is
  refused with \<open>UnauthorizedException\<close> and the database is left as it was.
\<close>

theorem C9_deleteTask:
  assumes "tasks d taskId = Some task"
  shows "(succeeds (fst (drizzle_deleteTask taskId uid userRole d)) \<longleftrightarrow> userRole = ADMIN) \<and>
         (succeeds (fst (typeorm_deleteTask taskId uid userRole d)) \<longleftrightarrow> userRole = ADMIN) \<and>
         (succeeds (fst (objection_deleteTask taskId uid userRole d)) \<longleftrightarrow> userRole = ADMIN) \<and>
         (userRole = MANAGER \<or> userRole = USER \<longrightarrow>
            drizzle_deleteTask taskId uid userRole d =
              (Inl (UnauthorizedException ''Only ADMIN can delete tasks''), d) \<and>
            typeorm_deleteTask taskId uid userRole d =
              (Inl (UnauthorizedException ''Only ADMIN can delete tasks''), d) \<and>
            objection_deleteTask taskId uid userRole d =
              (Inl (UnauthorizedException ''Only ADMIN can delete tasks''), d)) \<and>
         (userRole = ADMIN \<longrightarrow>
            tasks (snd (drizzle_deleteTask taskId uid userRole d)) taskId = None \<and>
            tasks (snd (typeorm_deleteTask taskId uid userRole d)) taskId = None \<and>
            tasks (snd (objection_deleteTask taskId uid userRole d)) taskId = None)"
  using assms
  by (cases userRole)
     (simp_all add: drizzle_deleteTask_def typeorm_deleteTask_def objection_deleteTask_def
        task_findById_defs select_task_present
        drizzle_task_delete_def typeorm_task_delete_def objection_task_delete_def
        delete_task_def remove_task_def)

theorem C9_deleteTask_witness:
  "tasks db0 1 = Some task1 \<and> Task.assignedToId task1 = 3 \<and> Task.createdBy task1 = 1 \<and>
   drizzle_deleteTask 1 3 USER db0 = (Inl (UnauthorizedException ''Only ADMIN can delete tasks''), db0) \<and>
   typeorm_deleteTask 1 3 USER db0 = (Inl (UnauthorizedException ''Only ADMIN can delete tasks''), db0) \<and>
   objection_deleteTask 1 3 USER db0 = (Inl (UnauthorizedException ''Only ADMIN can delete tasks''), db0) \<and>
   drizzle_deleteTask 1 2 MANAGER db0 = (Inl (UnauthorizedException ''Only ADMIN can delete tasks''), db0) \<and>
   succeeds (fst (drizzle_deleteTask 1 1 ADMIN db0)) \<and>
   tasks (snd (drizzle_deleteTask 1 1 ADMIN db0)) 1 = None \<and>
   tasks (snd (typeorm_deleteTask 1 1 ADMIN db0)) 1 = None \<and>
   tasks (snd (objection_deleteTask 1 1 ADMIN db0)) 1 = None"
proof -
  have present: "tasks db0 1 = Some task1"
    by (simp add: db0_def)
  have owners: "Task.assignedToId task1 = 3" "Task.createdBy task1 = 1"
    by (simp_all add: task1_def)
  from C9_deleteTask [OF present, of 3 USER] C9_deleteTask [OF present, of 2 MANAGER]
    C9_deleteTask [OF present, of 1 ADMIN] present owners
  show ?thesis by simp
qed

end
